theory Spec2Isabelle
  imports Main
begin

section \<open>Messages of the protocol (proto/ag\_pb, package pb)\<close>

text \<open>
  The message types are declared outside the two source files; the records below carry the
  fields that the code reads or writes through getters, setters and struct literals, with
  the attributes the specification lists for them. Identifiers are unsigned 64-bit numbers
  in Go and plain numbers in TypeScript; no arithmetic on them can overflow here (the only
  sum is of two row counts), so they are natural numbers. The zero value of a field (0, the
  empty string, false, the status NONE) is what GORM treats as "not set".
\<close>

datatype SubmissionStatus = NONE | APPROVED | REJECTED | REVISION

record User =
  user_ID :: nat
  user_Name :: string

record Group =
  group_ID :: nat
  group_Name :: string
  group_CourseID :: nat

record Assignment =
  asg_ID :: nat
  asg_CourseID :: nat

record Course =
  course_ID :: nat
  course_Name :: string

text \<open>Modelled from the spec: the columns of pb.Submission (identifier, assignment
  reference, user and group reference, score, test-result payload, released flag, status).
  The Reviews association is not a column; a query that preloads it returns it beside
  the row.\<close>

record Submission =
  ID :: nat
  AssignmentID :: nat
  UserID :: nat
  GroupID :: nat
  Score :: nat
  BuildInfo :: string
  Released :: bool
  Status :: SubmissionStatus

text \<open>Modelled from the spec: the columns of pb.Review (identifier, submission
  reference, reviewer reference, feedback text, review content, ready flag, score).\<close>

record Review =
  ReviewID :: nat
  SubmissionID :: nat
  ReviewerID :: nat
  Feedback :: string
  ReviewContent :: string
  Ready :: bool
  ReviewScore :: nat

section \<open>The database behind GormDB\<close>

datatype error = ErrRecordNotFound | StoreFailure string

record GormDB =
  tbl_users :: "User list"
  tbl_groups :: "Group list"
  tbl_assignments :: "Assignment list"
  tbl_courses :: "Course list"
  tbl_submissions :: "Submission list"
  tbl_reviews :: "Review list"

subsection \<open>GORM query primitives\<close>

text \<open>
  GORM is a library outside the repository. The definitions of this subsection give the
  calls that the source makes the meaning GORM documents for them, on tables that are
  lists of rows: a struct used as a condition or as the values of an update counts only
  with its fields that are set, a map counts with all its entries, a model with a primary
  key restricts an update to that row, and \<open>First\<close> and \<open>Last\<close> order by primary key.
  A call of the database never fails for a reason of its own here, a violated primary key
  apart.
\<close>

text \<open>
  \<open>Where(&pb.Submission{...})\<close>: a struct condition compares every field of the
  struct that is not its zero value, the primary key included, and ignores the others.
  The source relies on this ("the query would attempt to match all the test result
  fields as well").
\<close>

definition where_struct :: "Submission \<Rightarrow> Submission \<Rightarrow> bool" where
  "where_struct q r \<longleftrightarrow>
     (ID q = 0 \<or> ID r = ID q) \<and>
     (AssignmentID q = 0 \<or> AssignmentID r = AssignmentID q) \<and>
     (UserID q = 0 \<or> UserID r = UserID q) \<and>
     (GroupID q = 0 \<or> GroupID r = GroupID q) \<and>
     (Score q = 0 \<or> Score r = Score q) \<and>
     (BuildInfo q = [] \<or> BuildInfo r = BuildInfo q) \<and>
     (Released q = False \<or> Released r = Released q) \<and>
     (Status q = NONE \<or> Status r = Status q)"

text \<open>
  \<open>Assign(submission)\<close> and \<open>Updates(&pb.Submission{...})\<close>: written from a struct,
  only the fields that are not their zero value reach the row ("GORM doesn't update zero
  value fields, unless forced").
\<close>

definition assign_struct :: "Submission \<Rightarrow> Submission \<Rightarrow> Submission" where
  "assign_struct r a =
     \<lparr> ID = (if ID a = 0 then ID r else ID a),
       AssignmentID = (if AssignmentID a = 0 then AssignmentID r else AssignmentID a),
       UserID = (if UserID a = 0 then UserID r else UserID a),
       GroupID = (if GroupID a = 0 then GroupID r else GroupID a),
       Score = (if Score a = 0 then Score r else Score a),
       BuildInfo = (if BuildInfo a = [] then BuildInfo r else BuildInfo a),
       Released = (if Released a = False then Released r else Released a),
       Status = (if Status a = NONE then Status r else Status a) \<rparr>"

definition zero_Submission :: Submission where
  "zero_Submission =
     \<lparr> ID = 0, AssignmentID = 0, UserID = 0, GroupID = 0, Score = 0,
       BuildInfo = [], Released = False, Status = NONE \<rparr>"

text \<open>\<open>First\<close> and \<open>Last\<close> order by primary key: the row with the least, respectively
  the greatest, identifier among the rows given.\<close>

fun min_pk :: "Submission list \<Rightarrow> Submission option" where
  "min_pk [] = None"
| "min_pk (r # rs) =
     (case min_pk rs of
        None \<Rightarrow> Some r
      | Some m \<Rightarrow> if ID m < ID r then Some m else Some r)"

fun max_pk :: "Submission list \<Rightarrow> Submission option" where
  "max_pk [] = None"
| "max_pk (r # rs) =
     (case max_pk rs of
        None \<Rightarrow> Some r
      | Some m \<Rightarrow> if ID r < ID m then Some m else Some r)"

definition First_where :: "Submission \<Rightarrow> Submission list \<Rightarrow> error + Submission" where
  "First_where q tbl =
     (case min_pk (filter (where_struct q) tbl) of
        None \<Rightarrow> Inl ErrRecordNotFound
      | Some r \<Rightarrow> Inr r)"

definition Last_where :: "Submission \<Rightarrow> Submission list \<Rightarrow> error + Submission" where
  "Last_where q tbl =
     (case max_pk (filter (where_struct q) tbl) of
        None \<Rightarrow> Inl ErrRecordNotFound
      | Some r \<Rightarrow> Inr r)"

text \<open>
  \<open>db.conn.First(&pb.User{ID: id})\<close> followed by \<open>Count\<close> on the handle it returns:
  a failed \<open>First\<close> leaves its error in the handle, so \<open>Count(...).Error\<close> is that error;
  otherwise the count is the number of rows with this primary key.
\<close>

definition First_Count :: "nat list \<Rightarrow> nat \<Rightarrow> error + nat" where
  "First_Count pks i =
     (if i \<in> set pks then Inr (length (filter (\<lambda>k. k = i) pks))
      else Inl ErrRecordNotFound)"

text \<open>\<open>Model(&pb.Assignment{}).Where(&pb.Assignment{ID: id}).Count\<close>; a zero
  identifier is no condition at all.\<close>

definition Count_Assignment :: "Assignment list \<Rightarrow> nat \<Rightarrow> nat" where
  "Count_Assignment tbl i = length (filter (\<lambda>a. i = 0 \<or> asg_ID a = i) tbl)"

text \<open>Insertion: an unset identifier is assigned by the table (one more than the
  greatest in use); a given identifier must be unused.\<close>

definition next_pk :: "Submission list \<Rightarrow> nat" where
  "next_pk tbl = Suc (fold max (map ID tbl) 0)"

definition Create :: "Submission \<Rightarrow> Submission list \<Rightarrow> Submission \<times> error option \<times> Submission list" where
  "Create r tbl =
     (if ID r = 0 then
        (let r' = r\<lparr>ID := next_pk tbl\<rparr> in (r', None, tbl @ [r']))
      else if ID r \<in> set (map ID tbl) then
        (r, Some (StoreFailure ''UNIQUE constraint failed: submissions.id''), tbl)
      else (r, None, tbl @ [r]))"

text \<open>
  \<open>Where(query).Assign(attrs).FirstOrCreate(&out)\<close>: the first row matching the
  condition is read into \<open>out\<close>, the assigned attributes are set on it, and the row with
  \<open>out\<close>'s primary key that satisfies the condition is updated with them. With no match,
  a row made of the condition's fields and the assigned attributes is inserted.
\<close>

definition FirstOrCreate ::
  "Submission \<Rightarrow> Submission \<Rightarrow> Submission list \<Rightarrow> Submission \<times> error option \<times> Submission list" where
  "FirstOrCreate query attrs tbl =
     (case First_where query tbl of
        Inl _ \<Rightarrow> Create (assign_struct (assign_struct zero_Submission query) attrs) tbl
      | Inr r \<Rightarrow>
          (let out = assign_struct r attrs in
           (out, None,
            map (\<lambda>x. if ID x = ID out \<and> where_struct query x then assign_struct x attrs else x) tbl)))"

text \<open>
  \<open>Model(m).Where(cond).Updates(values)\<close>: every row satisfying the conditions is
  updated; a model with a primary key adds the condition on that key.
\<close>

definition Model_Updates ::
  "Submission \<Rightarrow> (Submission \<Rightarrow> bool) \<Rightarrow> (Submission \<Rightarrow> Submission) \<Rightarrow> Submission list \<Rightarrow> Submission list" where
  "Model_Updates m cond upd tbl =
     map (\<lambda>x. if (ID m = 0 \<or> ID x = ID m) \<and> cond x then upd x else x) tbl"

section \<open>database: CreateSubmission\<close>

text \<open>
  The result is the returned error (None for nil), the caller's submission after the call
  (its ID is assigned on the last line only) and the database after the call. Every early
  return hands back the submission and the database it received.
\<close>

definition CreateSubmission :: "GormDB \<Rightarrow> Submission \<Rightarrow> error option \<times> Submission \<times> GormDB" where
  "CreateSubmission db submission =
     (if AssignmentID submission < 1 then (Some ErrRecordNotFound, submission, db)
      else
        (case (if UserID submission > 0 \<and> GroupID submission > 0 then Inl ErrRecordNotFound
               else if UserID submission > 0 then
                 Inr (First_Count (map user_ID (tbl_users db)) (UserID submission))
               else if GroupID submission > 0 then
                 Inr (First_Count (map group_ID (tbl_groups db)) (GroupID submission))
               else Inl ErrRecordNotFound) of
           Inl e \<Rightarrow> (Some e, submission, db)
         | Inr m \<Rightarrow>
            (case m of
               Inl err \<Rightarrow> (Some err, submission, db)
             | Inr group_n \<Rightarrow>
                (let assignment = Count_Assignment (tbl_assignments db) (AssignmentID submission) in
                 if assignment + group_n \<noteq> 2 then (Some ErrRecordNotFound, submission, db)
                 else
                   (let query0 = zero_Submission
                          \<lparr> AssignmentID := AssignmentID submission,
                            UserID := UserID submission,
                            GroupID := GroupID submission \<rparr> in
                    (case (case Last_where query0 (tbl_submissions db) of
                             Inl err \<Rightarrow> if err \<noteq> ErrRecordNotFound then Inl err else Inr query0
                           | Inr found \<Rightarrow> Inr found) of
                       Inl err \<Rightarrow> (Some err, submission, db)
                     | Inr query \<Rightarrow>
                        (case FirstOrCreate query submission (tbl_submissions db) of
                           (labSubmission, err, tbl1) \<Rightarrow>
                             (let (err', tbl2) =
                                    (if Score submission = 0 then
                                       (None, Model_Updates submission (where_struct query)
                                                (\<lambda>x. x\<lparr>Score := 0\<rparr>) tbl1)
                                     else (err, tbl1))
                              in (err', submission\<lparr>ID := ID labSubmission\<rparr>,
                                  db\<lparr>tbl_submissions := tbl2\<rparr>)))))))))"

section \<open>database: GetSubmission and GetLastSubmissions\<close>

text \<open>\<open>Preload("Reviews").Where(query).Last(&submission)\<close>: the row with the greatest
  identifier among those matching the query, with the reviews that refer to it.\<close>

definition GetSubmission :: "GormDB \<Rightarrow> Submission \<Rightarrow> error + (Submission \<times> Review list)" where
  "GetSubmission db query =
     (case Last_where query (tbl_submissions db) of
        Inl err \<Rightarrow> Inl err
      | Inr submission \<Rightarrow>
          Inr (submission, filter (\<lambda>r. SubmissionID r = ID submission) (tbl_reviews db)))"

text \<open>\<open>Preload("Assignments").First(&course, courseID)\<close>: the course with this primary
  key, and the assignments that refer to it.\<close>

definition First_Course :: "GormDB \<Rightarrow> nat \<Rightarrow> error + (Course \<times> Assignment list)" where
  "First_Course db courseID =
     (case find (\<lambda>c. course_ID c = courseID) (tbl_courses db) of
        None \<Rightarrow> Inl ErrRecordNotFound
      | Some c \<Rightarrow> Inr (c, filter (\<lambda>a. asg_CourseID a = course_ID c) (tbl_assignments db)))"

text \<open>
  The loop over \<open>course.Assignments\<close>. The per-assignment lookup is a parameter, so that
  the loop is defined for every behaviour of \<open>db.GetSubmission\<close>, a lookup that fails with
  an error of the database included. The query is the caller's object: each round
  overwrites its AssignmentID and the next round sees that.
\<close>

fun latestSubs_loop ::
  "(Submission \<Rightarrow> error + 'a) \<Rightarrow> Assignment list \<Rightarrow> Submission \<Rightarrow> 'a list \<Rightarrow> error + 'a list" where
  "latestSubs_loop getSubmission [] query latestSubs = Inr latestSubs"
| "latestSubs_loop getSubmission (a # as) query latestSubs =
     (let query' = query\<lparr>AssignmentID := asg_ID a\<rparr> in
      case getSubmission query' of
        Inl err \<Rightarrow>
          if err = ErrRecordNotFound then latestSubs_loop getSubmission as query' latestSubs
          else Inl err
      | Inr temp \<Rightarrow> latestSubs_loop getSubmission as query' (latestSubs @ [temp]))"

definition GetLastSubmissions_with ::
  "(Submission \<Rightarrow> error + 'a) \<Rightarrow> GormDB \<Rightarrow> nat \<Rightarrow> Submission \<Rightarrow> error + 'a list" where
  "GetLastSubmissions_with getSubmission db courseID query =
     (case First_Course db courseID of
        Inl err \<Rightarrow> Inl err
      | Inr (course, course_Assignments) \<Rightarrow>
          latestSubs_loop getSubmission course_Assignments query [])"

definition GetLastSubmissions ::
  "GormDB \<Rightarrow> nat \<Rightarrow> Submission \<Rightarrow> error + (Submission \<times> Review list) list" where
  "GetLastSubmissions db courseID query =
     GetLastSubmissions_with (GetSubmission db) db courseID query"

text \<open>What the lookups find for the query with each assignment's identifier, in the order
  of the assignments; an assignment without a result contributes nothing.\<close>

definition found_subs :: "(Submission \<Rightarrow> error + 'a) \<Rightarrow> Submission \<Rightarrow> Assignment list \<Rightarrow> 'a list" where
  "found_subs getSubmission query as =
     List.map_filter
       (\<lambda>a. case getSubmission (query\<lparr>AssignmentID := asg_ID a\<rparr>) of
               Inl _ \<Rightarrow> None
             | Inr temp \<Rightarrow> Some temp) as"

section \<open>database: UpdateSubmissions\<close>

text \<open>The two string conditions compare with the query's values whatever they are; the
  values written come from a struct, so a NONE status and a false released flag are not
  written. The course identifier is not used.\<close>

definition UpdateSubmissions :: "GormDB \<Rightarrow> nat \<Rightarrow> Submission \<Rightarrow> error option \<times> GormDB" where
  "UpdateSubmissions db courseID query =
     (None,
      db\<lparr>tbl_submissions :=
           Model_Updates query
             (\<lambda>x. AssignmentID x = AssignmentID query \<and> Score x \<ge> Score query)
             (\<lambda>x. assign_struct x
                    (zero_Submission\<lparr>Status := Status query, Released := Released query\<rparr>))
             (tbl_submissions db)\<rparr>)"

section \<open>database: UpdateReview\<close>

definition zero_Review :: Review where
  "zero_Review =
     \<lparr> ReviewID = 0, SubmissionID = 0, ReviewerID = 0, Feedback = [],
       ReviewContent = [], Ready = False, ReviewScore = 0 \<rparr>"

definition where_Review :: "Review \<Rightarrow> Review \<Rightarrow> bool" where
  "where_Review q r \<longleftrightarrow>
     (ReviewID q = 0 \<or> ReviewID r = ReviewID q) \<and>
     (SubmissionID q = 0 \<or> SubmissionID r = SubmissionID q) \<and>
     (ReviewerID q = 0 \<or> ReviewerID r = ReviewerID q) \<and>
     (Feedback q = [] \<or> Feedback r = Feedback q) \<and>
     (ReviewContent q = [] \<or> ReviewContent r = ReviewContent q) \<and>
     (Ready q = False \<or> Ready r = Ready q) \<and>
     (ReviewScore q = 0 \<or> ReviewScore r = ReviewScore q)"

definition assign_Review :: "Review \<Rightarrow> Review \<Rightarrow> Review" where
  "assign_Review r a =
     \<lparr> ReviewID = (if ReviewID a = 0 then ReviewID r else ReviewID a),
       SubmissionID = (if SubmissionID a = 0 then SubmissionID r else SubmissionID a),
       ReviewerID = (if ReviewerID a = 0 then ReviewerID r else ReviewerID a),
       Feedback = (if Feedback a = [] then Feedback r else Feedback a),
       ReviewContent = (if ReviewContent a = [] then ReviewContent r else ReviewContent a),
       Ready = (if Ready a = False then Ready r else Ready a),
       ReviewScore = (if ReviewScore a = 0 then ReviewScore r else ReviewScore a) \<rparr>"

text \<open>\<open>Model(query).Where(&pb.Review{ID, SubmissionID, ReviewerID}).Update(&pb.Review{
  Feedback, Review, Ready, Score})\<close>: the model's primary key and the struct condition
  select the rows, the struct's fields that are set are written.\<close>

definition UpdateReview :: "GormDB \<Rightarrow> Review \<Rightarrow> error option \<times> GormDB" where
  "UpdateReview db query =
     (None,
      db\<lparr>tbl_reviews :=
           map (\<lambda>x. if (ReviewID query = 0 \<or> ReviewID x = ReviewID query) \<and>
                        where_Review
                          (zero_Review\<lparr>ReviewID := ReviewID query,
                                       SubmissionID := SubmissionID query,
                                       ReviewerID := ReviewerID query\<rparr>) x
                     then assign_Review x
                            (zero_Review\<lparr>Feedback := Feedback query,
                                         ReviewContent := ReviewContent query,
                                         Ready := Ready query,
                                         ReviewScore := ReviewScore query\<rparr>)
                     else x)
             (tbl_reviews db)\<rparr>)"

section \<open>managers: CourseManager\<close>

text \<open>
  Modelled from the spec: the view types of \<open>../models\<close>. An ISubmission carries the
  assignment identifier that \<open>fillLinks\<close> compares, with its own identifier and score; an
  entry of \<open>IAssignmentLink.assignments\<close> is the object literal that \<open>fillLinks\<close> pushes.
  A value that may be \<open>undefined\<close> or \<open>null\<close> is an option.
\<close>

record Enrollment =
  enr_userid :: nat
  enr_user :: "User option"
  enr_courseid :: nat
  enr_course :: "Course option"
  enr_status :: nat
  enr_groupid :: nat
  enr_group :: "Group option"

record IUserRelation =
  rel_link :: Enrollment
  rel_user :: User

record ISubmission =
  sub_id :: nat
  assignmentid :: nat
  sub_score :: nat

record IStudentLab =
  assignment :: Assignment
  latest :: "ISubmission option"
  authorName :: string

record IAssignmentLink =
  link :: "Enrollment option"
  assignments :: "IStudentLab list"
  course :: Course

text \<open>
  The course provider is an interface: its answers are functions of the arguments, and
  the calls a method makes to it are recorded in the order made.
\<close>

record ICourseProvider =
  getAssignments :: "nat \<Rightarrow> Assignment list"
  getAllLabInfos :: "nat \<Rightarrow> nat \<Rightarrow> ISubmission list"
  getAllGroupLabInfos :: "nat \<Rightarrow> nat \<Rightarrow> ISubmission list"

datatype provider_call =
  Call_getAssignments nat
| Call_getAllLabInfos nat nat
| Call_getAllGroupLabInfos nat nat

definition new_Enrollment :: Enrollment where
  "new_Enrollment =
     \<lparr> enr_userid = 0, enr_user = None, enr_courseid = 0, enr_course = None,
       enr_status = 0, enr_groupid = 0, enr_group = None \<rparr>"

text \<open>One round of the \<open>for (const a of assignments)\<close> loop: \<open>find\<close> gives the first
  element of the batch that satisfies the test, or \<open>undefined\<close>.\<close>

definition push_lab :: "ISubmission list \<Rightarrow> string \<Rightarrow> Assignment \<Rightarrow> IAssignmentLink \<Rightarrow> IAssignmentLink" where
  "push_lab submissions name a studentCourse =
     (let submission = find (\<lambda>sub. assignmentid sub = asg_ID a) submissions in
      studentCourse\<lparr>assignments := assignments studentCourse @
         [\<lparr> assignment = a, latest = submission, authorName = name \<rparr>]\<rparr>)"

definition fillLinks ::
  "ICourseProvider \<Rightarrow> User \<Rightarrow> IAssignmentLink \<Rightarrow> Assignment list option \<Rightarrow>
     IAssignmentLink \<times> provider_call list" where
  "fillLinks courseProvider student studentCourse assignments0 =
     (if link studentCourse = None then (studentCourse, [])
      else
        (let (assignments1, calls) =
               (case assignments0 of
                  None \<Rightarrow>
                    (getAssignments courseProvider (course_ID (course studentCourse)),
                     [Call_getAssignments (course_ID (course studentCourse))])
                | Some as \<Rightarrow> (as, []))
         in if length assignments1 > 0 then
              (let submissions =
                     getAllLabInfos courseProvider (course_ID (course studentCourse)) (user_ID student)
               in (fold (push_lab submissions (user_Name student)) assignments1 studentCourse,
                   calls @ [Call_getAllLabInfos (course_ID (course studentCourse)) (user_ID student)]))
            else (studentCourse, calls)))"

definition fillLinksGroup ::
  "ICourseProvider \<Rightarrow> Group \<Rightarrow> IAssignmentLink \<Rightarrow> Assignment list option \<Rightarrow>
     IAssignmentLink \<times> provider_call list" where
  "fillLinksGroup courseProvider grp groupCourse assignments0 =
     (if link groupCourse = None then (groupCourse, [])
      else
        (let (assignments1, calls) =
               (case assignments0 of
                  None \<Rightarrow>
                    (getAssignments courseProvider (course_ID (course groupCourse)),
                     [Call_getAssignments (course_ID (course groupCourse))])
                | Some as \<Rightarrow> (as, []))
         in if length assignments1 > 0 then
              (let submissions =
                     getAllGroupLabInfos courseProvider (course_ID (course groupCourse)) (group_ID grp)
               in (fold (push_lab submissions (group_Name grp)) assignments1 groupCourse,
                   calls @ [Call_getAllGroupLabInfos (course_ID (course groupCourse)) (group_ID grp)]))
            else (groupCourse, calls)))"

text \<open>The result is the link returned (never null here), the calls made to the provider,
  and the course object as it is after the call: no statement of the method or of
  \<open>fillLinks\<close> writes to it.\<close>

definition getStudentCourseForTeacher ::
  "ICourseProvider \<Rightarrow> IUserRelation \<Rightarrow> Course \<Rightarrow> Assignment list \<Rightarrow>
     IAssignmentLink option \<times> provider_call list \<times> Course" where
  "getStudentCourseForTeacher courseProvider student crs assignments0 =
     (let enrol = new_Enrollment
            \<lparr> enr_userid := user_ID (rel_user student),
              enr_user := Some (rel_user student),
              enr_courseid := course_ID crs,
              enr_course := Some crs,
              enr_status := enr_status (rel_link student) \<rparr>;
          userCourse = \<lparr> link = Some enrol, assignments = [], course = crs \<rparr>;
          (userCourse', calls) = fillLinks courseProvider (rel_user student) userCourse (Some assignments0)
      in (Some userCourse', calls, crs))"

definition getGroupCourseForTeacher ::
  "ICourseProvider \<Rightarrow> Group \<Rightarrow> Course \<Rightarrow> Assignment list \<Rightarrow>
     IAssignmentLink option \<times> provider_call list \<times> Course" where
  "getGroupCourseForTeacher courseProvider grp crs assignments0 =
     (if group_CourseID grp = course_ID crs then
        (let enrol = new_Enrollment
               \<lparr> enr_groupid := group_ID grp,
                 enr_courseid := course_ID crs,
                 enr_group := Some grp \<rparr>;
             groupCourse = \<lparr> link = Some enrol, assignments = [], course = crs \<rparr>;
             (groupCourse', calls) = fillLinksGroup courseProvider grp groupCourse (Some assignments0)
         in (Some groupCourse', calls, crs))
      else (None, [], crs))"

section \<open>Sample data\<close>

text \<open>A course with two assignments, one student and one group; the student has one
  stored submission for the first assignment, approved, with score 7 and the test results
  of a first build.\<close>

definition ex_row :: Submission where
  "ex_row =
     \<lparr> ID = 1, AssignmentID = 1, UserID = 1, GroupID = 0, Score = 7,
       BuildInfo = ''build 1'', Released = False, Status = APPROVED \<rparr>"

definition ex_db :: GormDB where
  "ex_db =
     \<lparr> tbl_users = [\<lparr>user_ID = 1, user_Name = ''ann''\<rparr>],
       tbl_groups = [\<lparr>group_ID = 2, group_Name = ''team'', group_CourseID = 1\<rparr>],
       tbl_assignments = [\<lparr>asg_ID = 1, asg_CourseID = 1\<rparr>, \<lparr>asg_ID = 2, asg_CourseID = 1\<rparr>],
       tbl_courses = [\<lparr>course_ID = 1, course_Name = ''algo''\<rparr>],
       tbl_submissions = [ex_row],
       tbl_reviews = [] \<rparr>"

text \<open>An incoming submission of the same student for the same assignment: the test
  results of a second build, score 0, no status, identifier not yet assigned.\<close>

definition ex_sub :: Submission where
  "ex_sub =
     \<lparr> ID = 0, AssignmentID = 1, UserID = 1, GroupID = 0, Score = 0,
       BuildInfo = ''build 2'', Released = False, Status = NONE \<rparr>"

text \<open>A review of the stored submission by the reviewer 7.\<close>

definition ex_review :: Review where
  "ex_review =
     \<lparr> ReviewID = 1, SubmissionID = 1, ReviewerID = 7, Feedback = ''fine'',
       ReviewContent = ''[]'', Ready = True, ReviewScore = 50 \<rparr>"

text \<open>The student of the sample course as the course manager sees her, and a provider
  whose batch for her holds two submissions for the assignment 1, the older one first in
  the batch here, and none for the assignment 2.\<close>

definition ex_student :: IUserRelation where
  "ex_student =
     \<lparr> rel_link = new_Enrollment\<lparr>enr_userid := 1, enr_courseid := 1, enr_status := 2\<rparr>,
       rel_user = \<lparr>user_ID = 1, user_Name = ''ann''\<rparr> \<rparr>"

definition ex_provider :: ICourseProvider where
  "ex_provider =
     \<lparr> getAssignments = (\<lambda>c. [\<lparr>asg_ID = 1, asg_CourseID = 1\<rparr>, \<lparr>asg_ID = 2, asg_CourseID = 1\<rparr>]),
       getAllLabInfos = (\<lambda>c u. [\<lparr>sub_id = 4, assignmentid = 1, sub_score = 80\<rparr>,
                                 \<lparr>sub_id = 9, assignmentid = 1, sub_score = 95\<rparr>]),
       getAllGroupLabInfos = (\<lambda>c g. []) \<rparr>"

section \<open>CreateSubmission: the reference checks\<close>

lemma First_Count_distinct: "distinct pks \<Longrightarrow> First_Count pks i = Inr n \<Longrightarrow> n = 1"
  by (auto simp: First_Count_def distinct_length_filter split: if_splits)

lemma First_Count_present: "distinct pks \<Longrightarrow> i \<in> set pks \<Longrightarrow> First_Count pks i = Inr 1"
  by (auto simp: First_Count_def distinct_length_filter)

lemma Count_Assignment_missing:
  "0 < i \<Longrightarrow> i \<notin> set (map asg_ID tbl) \<Longrightarrow> Count_Assignment tbl i = 0"
  by (induction tbl) (auto simp: Count_Assignment_def)

text \<open>
  C1, as the code has it. A submission whose assignment reference is 0, or whose user and
  group references are both set or both unset, is refused before any database call: the
  error returned is \<open>gorm.ErrRecordNotFound\<close>, the submission and the database are as
  they were. The code has no error of its own for a malformed reference.
\<close>

theorem CreateSubmission_bad_shape:
  assumes "AssignmentID s = 0 \<or> (UserID s > 0 \<and> GroupID s > 0) \<or> (UserID s = 0 \<and> GroupID s = 0)"
  shows "CreateSubmission db s = (Some ErrRecordNotFound, s, db)"
  using assms by (auto simp: CreateSubmission_def)

text \<open>The theorem at a submission with both owner references set.\<close>

theorem CreateSubmission_bad_shape_witness:
  "CreateSubmission ex_db (ex_sub\<lparr>GroupID := 2\<rparr>) =
     (Some ErrRecordNotFound, ex_sub\<lparr>GroupID := 2\<rparr>, ex_db)"
  using CreateSubmission_bad_shape [of "ex_sub\<lparr>GroupID := 2\<rparr>" ex_db]
  by (simp add: ex_sub_def)

text \<open>
  C1 as stated asks for an error kind of its own, distinct from not-found. A submission
  with no assignment reference and a well-shaped submission for the assignment 3, which
  does not exist, get the same error.
\<close>

theorem CreateSubmission_bad_shape_same_error:
  "fst (CreateSubmission ex_db (ex_sub\<lparr>AssignmentID := 0\<rparr>)) = Some ErrRecordNotFound \<and>
   fst (CreateSubmission ex_db (ex_sub\<lparr>AssignmentID := 3\<rparr>)) = Some ErrRecordNotFound \<and>
   fst (CreateSubmission ex_db (ex_sub\<lparr>AssignmentID := 0\<rparr>)) =
     fst (CreateSubmission ex_db (ex_sub\<lparr>AssignmentID := 3\<rparr>))"
  by (simp add: CreateSubmission_def ex_db_def ex_sub_def First_Count_def Count_Assignment_def)

text \<open>
  C2. Primary keys are unique in the user and group tables. A submission with an
  assignment reference and exactly one owner reference, whose owner or whose assignment is
  not in the database, gets \<open>gorm.ErrRecordNotFound\<close>, and the submission and the database
  are as they were. The owner check counts the rows with the owner's key and the
  assignment check those with the assignment's key; with one of them at zero the sum
  cannot be 2.
\<close>

theorem CreateSubmission_missing_reference:
  assumes "AssignmentID s > 0"
    and "(UserID s > 0 \<and> GroupID s = 0) \<or> (UserID s = 0 \<and> GroupID s > 0)"
    and "distinct (map user_ID (tbl_users db))"
    and "distinct (map group_ID (tbl_groups db))"
    and "(UserID s > 0 \<and> UserID s \<notin> set (map user_ID (tbl_users db)))
         \<or> (GroupID s > 0 \<and> GroupID s \<notin> set (map group_ID (tbl_groups db)))
         \<or> AssignmentID s \<notin> set (map asg_ID (tbl_assignments db))"
  shows "CreateSubmission db s = (Some ErrRecordNotFound, s, db)"
proof -
  let ?owner = "if UserID s > 0 then First_Count (map user_ID (tbl_users db)) (UserID s)
                else First_Count (map group_ID (tbl_groups db)) (GroupID s)"
  have unfold: "CreateSubmission db s =
     (case ?owner of
        Inl err \<Rightarrow> (Some err, s, db)
      | Inr n \<Rightarrow>
          if Count_Assignment (tbl_assignments db) (AssignmentID s) + n \<noteq> 2
          then (Some ErrRecordNotFound, s, db) else CreateSubmission db s)"
    using assms(1,2) by (auto simp: CreateSubmission_def Let_def split: sum.splits)
  show ?thesis
  proof (cases ?owner)
    case (Inl err)
    then have "err = ErrRecordNotFound"
      by (auto simp: First_Count_def split: if_splits)
    with Inl unfold show ?thesis by simp
  next
    case (Inr n)
    then have n1: "n = 1"
      using assms(3,4) by (auto dest: First_Count_distinct split: if_splits)
    from Inr have "UserID s > 0 \<Longrightarrow> UserID s \<in> set (map user_ID (tbl_users db))"
      and "\<not> UserID s > 0 \<Longrightarrow> GroupID s \<in> set (map group_ID (tbl_groups db))"
      by (auto simp: First_Count_def split: if_splits)
    with assms(2,5) have "AssignmentID s \<notin> set (map asg_ID (tbl_assignments db))"
      by auto
    with assms(1) have "Count_Assignment (tbl_assignments db) (AssignmentID s) = 0"
      by (rule Count_Assignment_missing)
    with n1 Inr unfold show ?thesis by simp
  qed
qed

text \<open>The theorem at a submission of the student 1 for the assignment 3, which does
  not exist.\<close>

theorem CreateSubmission_missing_reference_witness:
  "CreateSubmission ex_db (ex_sub\<lparr>AssignmentID := 3\<rparr>) =
     (Some ErrRecordNotFound, ex_sub\<lparr>AssignmentID := 3\<rparr>, ex_db)"
  using CreateSubmission_missing_reference [of "ex_sub\<lparr>AssignmentID := 3\<rparr>" ex_db]
  by (simp add: ex_sub_def ex_db_def)

section \<open>CreateSubmission: the forced write of a zero score\<close>

text \<open>
  C3 at the sample data. The stored row has score 7 and the test results of the first
  build; the incoming submission has score 0 and the test results of the second build.
  \<open>Last\<close> reads the stored row into \<open>query\<close>; \<open>FirstOrCreate\<close> writes the new test results
  and, the score being a zero value, not the score; the forced write then looks for rows
  that match \<open>query\<close>, the old test results included, and finds none. The call returns no
  error and the stored score is still 7.
\<close>

theorem CreateSubmission_zero_score_not_forced:
  "CreateSubmission ex_db ex_sub =
     (None, ex_sub\<lparr>ID := 1\<rparr>,
      ex_db\<lparr>tbl_submissions := [ex_row\<lparr>BuildInfo := ''build 2''\<rparr>]\<rparr>) \<and>
   map Score (tbl_submissions (snd (snd (CreateSubmission ex_db ex_sub)))) = [7]"
  by (simp add: CreateSubmission_def ex_db_def ex_sub_def ex_row_def First_Count_def
      Count_Assignment_def Last_where_def First_where_def where_struct_def
      zero_Submission_def FirstOrCreate_def assign_struct_def Model_Updates_def Let_def)

text \<open>When the incoming submission changes no field that is set in the stored row (here
  it carries the test results of the first build again), the forced write finds the row
  and the stored score is 0.\<close>

lemma CreateSubmission_zero_score_forced_when_unchanged:
  "CreateSubmission ex_db (ex_sub\<lparr>BuildInfo := ''build 1''\<rparr>) =
     (None, ex_sub\<lparr>ID := 1, BuildInfo := ''build 1''\<rparr>,
      ex_db\<lparr>tbl_submissions := [ex_row\<lparr>Score := 0\<rparr>]\<rparr>)"
  by (simp add: CreateSubmission_def ex_db_def ex_sub_def ex_row_def First_Count_def
      Count_Assignment_def Last_where_def First_where_def where_struct_def
      zero_Submission_def FirstOrCreate_def assign_struct_def Model_Updates_def Let_def)

section \<open>CreateSubmission: the upsert\<close>

lemma fold_max_ge: "a \<le> fold max xs (a::nat)"
  by (induction xs arbitrary: a) (auto intro: order_trans [OF max.cobounded2])

lemma fold_max_upper: "x \<in> set xs \<Longrightarrow> x \<le> fold max xs (a::nat)"
proof (induction xs arbitrary: a)
  case Nil
  then show ?case by simp
next
  case (Cons y ys)
  show ?case
  proof (cases "x = y")
    case True
    have "max y a \<le> fold max ys (max y a)" by (rule fold_max_ge)
    with True show ?thesis by simp
  next
    case False
    with Cons show ?thesis by simp
  qed
qed

lemma next_pk_fresh: "r \<in> set tbl \<Longrightarrow> ID r < next_pk tbl"
  unfolding next_pk_def using fold_max_upper [of "ID r" "map ID tbl" 0] by auto

lemma next_pk_pos: "0 < next_pk tbl"
  by (simp add: next_pk_def)

lemma count_pk_one:
  "distinct pks \<Longrightarrow> i \<in> set pks \<Longrightarrow> length (filter (\<lambda>k. k = i) pks) = 1"
  by (simp add: distinct_length_filter)

lemma Count_Assignment_present:
  assumes "distinct (map asg_ID tbl)" and "i \<in> set (map asg_ID tbl)" and "0 < i"
  shows "Count_Assignment tbl i = 1"
proof -
  have "Count_Assignment tbl i = length (filter (\<lambda>k. k = i) (map asg_ID tbl))"
    using assms(3) by (simp add: Count_Assignment_def comp_def)
  also have "\<dots> = 1"
    using assms(1,2) by (rule count_pk_one)
  finally show ?thesis .
qed

text \<open>Past the reference checks, the call is the find-or-create and the forced write.\<close>

lemma CreateSubmission_checked:
  assumes "AssignmentID s > 0"
    and "(UserID s > 0 \<and> GroupID s = 0) \<or> (UserID s = 0 \<and> GroupID s > 0)"
    and "(if UserID s > 0 then First_Count (map user_ID (tbl_users db)) (UserID s)
          else First_Count (map group_ID (tbl_groups db)) (GroupID s)) = Inr 1"
    and "Count_Assignment (tbl_assignments db) (AssignmentID s) = 1"
  shows "CreateSubmission db s =
     (let query0 = zero_Submission
            \<lparr> AssignmentID := AssignmentID s,
              UserID := UserID s,
              GroupID := GroupID s \<rparr> in
      (case (case Last_where query0 (tbl_submissions db) of
               Inl err \<Rightarrow> if err \<noteq> ErrRecordNotFound then Inl err else Inr query0
             | Inr found \<Rightarrow> Inr found) of
         Inl err \<Rightarrow> (Some err, s, db)
       | Inr query \<Rightarrow>
          (case FirstOrCreate query s (tbl_submissions db) of
             (labSubmission, err, tbl1) \<Rightarrow>
               (let (err', tbl2) =
                      (if Score s = 0 then
                         (None, Model_Updates s (where_struct query)
                                  (\<lambda>x. x\<lparr>Score := 0\<rparr>) tbl1)
                       else (err, tbl1))
                in (err', s\<lparr>ID := ID labSubmission\<rparr>,
                    db\<lparr>tbl_submissions := tbl2\<rparr>)))))"
  using assms(2)
proof
  assume "UserID s > 0 \<and> GroupID s = 0"
  then show ?thesis
    using assms(1,3,4) by (simp add: CreateSubmission_def)
next
  assume "UserID s = 0 \<and> GroupID s > 0"
  then show ?thesis
    using assms(1,3,4) by (simp add: CreateSubmission_def)
qed

lemma Last_where_none:
  "\<forall>r\<in>set tbl. \<not> where_struct q r \<Longrightarrow> Last_where q tbl = Inl ErrRecordNotFound"
  by (simp add: Last_where_def filter_False)

lemma First_where_none:
  "\<forall>r\<in>set tbl. \<not> where_struct q r \<Longrightarrow> First_where q tbl = Inl ErrRecordNotFound"
  by (simp add: First_where_def filter_False)

lemma Last_where_only:
  "\<forall>r\<in>set tbl. \<not> where_struct q r \<Longrightarrow> where_struct q x \<Longrightarrow> Last_where q (tbl @ [x]) = Inr x"
  by (simp add: Last_where_def filter_False)

lemma First_where_only:
  "\<forall>r\<in>set tbl. \<not> where_struct q r \<Longrightarrow> where_struct q x \<Longrightarrow> First_where q (tbl @ [x]) = Inr x"
  by (simp add: First_where_def filter_False)

lemma map_unchanged: "\<forall>x\<in>set xs. f x = x \<Longrightarrow> map f xs = xs"
  by (induction xs) auto

text \<open>
  C4, as the code has it. The incoming submission has no identifier yet, an assignment
  reference and exactly one owner reference, both of which exist; primary keys are unique
  in the user, group and assignment tables; no stored submission is of this assignment and
  this owner. The first call appends one row, the input with the identifier the table
  assigns. A second call, with the same values or with the object the first call returned,
  leaves the database as the first call left it and returns the same row's identifier. The
  database then holds exactly one row of this assignment and owner. That the second call
  writes to the row created, and creates none, shows with other values: a call for the
  same assignment and owner with a score that is not 0 leaves the created row in its place
  with the incoming fields that are set written over it.
\<close>

theorem CreateSubmission_idempotent:
  assumes id0: "ID s = 0"
    and asg: "AssignmentID s > 0"
    and owner: "(UserID s > 0 \<and> GroupID s = 0) \<or> (UserID s = 0 \<and> GroupID s > 0)"
    and pk: "distinct (map user_ID (tbl_users db))" "distinct (map group_ID (tbl_groups db))"
            "distinct (map asg_ID (tbl_assignments db))"
    and refs: "UserID s > 0 \<longrightarrow> UserID s \<in> set (map user_ID (tbl_users db))"
              "GroupID s > 0 \<longrightarrow> GroupID s \<in> set (map group_ID (tbl_groups db))"
              "AssignmentID s \<in> set (map asg_ID (tbl_assignments db))"
    and norow: "\<forall>r\<in>set (tbl_submissions db).
                  AssignmentID r = AssignmentID s \<longrightarrow>
                    (UserID s > 0 \<longrightarrow> UserID r \<noteq> UserID s) \<and>
                    (GroupID s > 0 \<longrightarrow> GroupID r \<noteq> GroupID s)"
  shows "let row = s\<lparr>ID := next_pk (tbl_submissions db)\<rparr>;
             db1 = db\<lparr>tbl_submissions := tbl_submissions db @ [row]\<rparr>
         in CreateSubmission db s = (None, row, db1) \<and>
            CreateSubmission db1 s = (None, row, db1) \<and>
            CreateSubmission db1 row = (None, row, db1) \<and>
            filter (\<lambda>r. AssignmentID r = AssignmentID s \<and> UserID r = UserID s \<and>
                         GroupID r = GroupID s) (tbl_submissions db1) = [row] \<and>
            (\<forall>s2. ID s2 = 0 \<and> AssignmentID s2 = AssignmentID s \<and> UserID s2 = UserID s \<and>
                  GroupID s2 = GroupID s \<and> Score s2 \<noteq> 0 \<longrightarrow>
               CreateSubmission db1 s2 =
                 (None, s2\<lparr>ID := ID row\<rparr>,
                  db\<lparr>tbl_submissions := tbl_submissions db @ [assign_struct row s2]\<rparr>))"
proof -
  define tbl where "tbl = tbl_submissions db"
  define n where "n = next_pk tbl"
  define row where "row = s\<lparr>ID := n\<rparr>"
  define db1 where "db1 = db\<lparr>tbl_submissions := tbl @ [row]\<rparr>"
  define q0 where "q0 = zero_Submission
    \<lparr>AssignmentID := AssignmentID s, UserID := UserID s, GroupID := GroupID s\<rparr>"
  have npos: "0 < n" by (simp add: n_def next_pk_pos)
  have fresh: "\<forall>r\<in>set tbl. ID r < n" by (simp add: n_def next_pk_fresh)
  have q0_none: "\<forall>r\<in>set tbl. \<not> where_struct q0 r"
    using norow owner asg by (auto simp: where_struct_def q0_def zero_Submission_def tbl_def)
  have row_none: "\<forall>r\<in>set tbl. \<not> where_struct row r"
    using fresh npos by (auto simp: where_struct_def row_def)
  have q0_row: "where_struct q0 row"
    by (simp add: where_struct_def q0_def row_def zero_Submission_def)
  have row_row: "where_struct row row"
    by (simp add: where_struct_def)
  have owner_ok: "(if UserID s > 0 then First_Count (map user_ID (tbl_users db)) (UserID s)
                else First_Count (map group_ID (tbl_groups db)) (GroupID s)) = Inr 1"
    using owner pk(1,2) refs(1,2) by (auto simp: First_Count_present)
  have asg_ok: "Count_Assignment (tbl_assignments db) (AssignmentID s) = 1"
    using pk(3) refs(3) asg by (rule Count_Assignment_present)
  have built: "assign_struct (assign_struct zero_Submission q0) s = s"
    using id0 by (simp add: assign_struct_def q0_def zero_Submission_def)
  have merged: "assign_struct row s = row" "assign_struct row row = row"
    using id0 by (simp_all add: assign_struct_def row_def)
  have create: "FirstOrCreate q0 s tbl = (row, None, tbl @ [row])"
    using id0
    by (simp add: FirstOrCreate_def First_where_none [OF q0_none] built Create_def row_def
        n_def Let_def)
  have update: "FirstOrCreate row a (tbl @ [row]) = (row, None, tbl @ [row])"
    if "assign_struct row a = row" for a
  proof -
    have "map (\<lambda>x. if ID x = ID row \<and> where_struct row x then assign_struct x a else x) tbl = tbl"
      using row_none by (intro map_unchanged) auto
    then show ?thesis
      using that
      by (simp add: FirstOrCreate_def First_where_only [OF row_none row_row] Let_def row_row)
  qed
  have forced0: "Model_Updates s (where_struct q0) (\<lambda>x. x\<lparr>Score := 0\<rparr>) (tbl @ [row]) = tbl @ [row]"
    if "Score s = 0"
  proof -
    have "map (\<lambda>x. if (ID s = 0 \<or> ID x = ID s) \<and> where_struct q0 x then x\<lparr>Score := 0\<rparr> else x) tbl
          = tbl"
      using q0_none by (intro map_unchanged) auto
    moreover have "row\<lparr>Score := 0\<rparr> = row" using that by (simp add: row_def)
    ultimately show ?thesis by (simp add: Model_Updates_def)
  qed
  have forced1: "Model_Updates m (where_struct row) (\<lambda>x. x\<lparr>Score := 0\<rparr>) (tbl @ [row]) = tbl @ [row]"
    if "Score s = 0" for m
  proof -
    have "map (\<lambda>x. if (ID m = 0 \<or> ID x = ID m) \<and> where_struct row x then x\<lparr>Score := 0\<rparr> else x) tbl
          = tbl"
      using row_none by (intro map_unchanged) auto
    moreover have "row\<lparr>Score := 0\<rparr> = row" using that by (simp add: row_def)
    ultimately show ?thesis by (simp add: Model_Updates_def)
  qed
  have set_id: "s\<lparr>ID := ID row\<rparr> = row" "row\<lparr>ID := ID row\<rparr> = row"
    by (simp_all add: row_def)
  have first: "CreateSubmission db s = (None, row, db1)"
    using create forced0
    by (simp add: CreateSubmission_checked [OF asg owner owner_ok asg_ok] Let_def
        q0_def [symmetric] tbl_def [symmetric] Last_where_none [OF q0_none] db1_def set_id)
  have row_fields: "AssignmentID row = AssignmentID s" "UserID row = UserID s"
    "GroupID row = GroupID s" "Score row = Score s"
    by (simp_all add: row_def)
  have tbl1: "tbl_submissions db1 = tbl @ [row]" "tbl_users db1 = tbl_users db"
    "tbl_groups db1 = tbl_groups db" "tbl_assignments db1 = tbl_assignments db"
    by (simp_all add: db1_def)
  have db1_same: "db1\<lparr>tbl_submissions := tbl @ [row]\<rparr> = db1" by (simp add: db1_def)
  have owner_ok1: "(if UserID s > 0 then First_Count (map user_ID (tbl_users db1)) (UserID s)
                else First_Count (map group_ID (tbl_groups db1)) (GroupID s)) = Inr 1"
    using owner_ok by (simp only: tbl1)
  have asg_ok1: "Count_Assignment (tbl_assignments db1) (AssignmentID s) = 1"
    using asg_ok by (simp add: tbl1)
  have second: "CreateSubmission db1 s = (None, row, db1)"
    using update [OF merged(1)] forced1 [of s]
    by (simp add: CreateSubmission_checked [OF asg owner owner_ok1 asg_ok1] Let_def
        q0_def [symmetric] tbl1 Last_where_only [OF q0_none q0_row] db1_same set_id)
  have third: "CreateSubmission db1 row = (None, row, db1)"
    using update [OF merged(2)] forced1 [of row]
    by (simp add: CreateSubmission_checked [of row db1, unfolded row_fields,
          OF asg owner owner_ok1 asg_ok1]
        Let_def q0_def [symmetric] tbl1 Last_where_only [OF q0_none q0_row] db1_same
        row_fields set_id)
  have overwrite: "FirstOrCreate row a (tbl @ [row]) =
      (assign_struct row a, None, tbl @ [assign_struct row a])"
    if "ID a = 0" for a
  proof -
    have same_id: "ID (assign_struct row a) = ID row"
      using that by (simp add: assign_struct_def)
    have "map (\<lambda>x. if ID x = ID row \<and> where_struct row x then assign_struct x a else x) tbl = tbl"
      using row_none by (intro map_unchanged) auto
    then show ?thesis
      by (simp add: FirstOrCreate_def First_where_only [OF row_none row_row] Let_def row_row
          same_id)
  qed
  have fourth: "CreateSubmission db1 s2 =
      (None, s2\<lparr>ID := ID row\<rparr>, db\<lparr>tbl_submissions := tbl @ [assign_struct row s2]\<rparr>)"
    if s2: "ID s2 = 0" "AssignmentID s2 = AssignmentID s" "UserID s2 = UserID s"
      "GroupID s2 = GroupID s" "Score s2 \<noteq> 0" for s2
  proof -
    have same_id: "ID (assign_struct row s2) = ID row"
      using s2(1) by (simp add: assign_struct_def)
    have db1_over: "db1\<lparr>tbl_submissions := t\<rparr> = db\<lparr>tbl_submissions := t\<rparr>" for t
      by (simp add: db1_def)
    have asg2: "AssignmentID s2 > 0" using asg s2(2) by simp
    have owner2: "(UserID s2 > 0 \<and> GroupID s2 = 0) \<or> (UserID s2 = 0 \<and> GroupID s2 > 0)"
      using owner s2(3,4) by simp
    have owner_ok2: "(if UserID s2 > 0
          then First_Count (map user_ID (tbl_users db1)) (UserID s2)
          else First_Count (map group_ID (tbl_groups db1)) (GroupID s2)) = Inr 1"
      using owner_ok1 by (simp only: s2(3,4))
    have asg_ok2: "Count_Assignment (tbl_assignments db1) (AssignmentID s2) = 1"
      using asg_ok1 by (simp only: s2(2))
    have q2: "zero_Submission\<lparr>AssignmentID := AssignmentID s2, UserID := UserID s2,
                GroupID := GroupID s2\<rparr> = q0"
      by (simp only: s2(2,3,4) q0_def)
    show ?thesis
      using overwrite [OF s2(1)] s2(5)
      by (simp add: CreateSubmission_checked [OF asg2 owner2 owner_ok2 asg_ok2] Let_def q2
          tbl1 Last_where_only [OF q0_none q0_row] db1_over same_id)
  qed
  have "filter (\<lambda>r. AssignmentID r = AssignmentID s \<and> UserID r = UserID s \<and> GroupID r = GroupID s) tbl = []"
    using norow owner by (auto simp: tbl_def filter_empty_conv)
  then have one: "filter (\<lambda>r. AssignmentID r = AssignmentID s \<and> UserID r = UserID s \<and>
                              GroupID r = GroupID s) (tbl_submissions db1) = [row]"
    by (simp add: tbl1 row_fields)
  have fifth: "\<forall>s2. ID s2 = 0 \<and> AssignmentID s2 = AssignmentID s \<and> UserID s2 = UserID s \<and>
                  GroupID s2 = GroupID s \<and> Score s2 \<noteq> 0 \<longrightarrow>
               CreateSubmission db1 s2 =
                 (None, s2\<lparr>ID := ID row\<rparr>,
                  db\<lparr>tbl_submissions := tbl @ [assign_struct row s2]\<rparr>)"
    using fourth by blast
  show ?thesis
    using first second third one fifth
    by (simp add: Let_def row_def n_def tbl_def db1_def)
qed

text \<open>The theorem at the sample database and the first submission of the group 2 for
  the assignment 2: the row gets the identifier 2.\<close>

theorem CreateSubmission_idempotent_witness:
  "CreateSubmission ex_db (ex_sub\<lparr>AssignmentID := 2, UserID := 0, GroupID := 2\<rparr>) =
     (None, ex_sub\<lparr>AssignmentID := 2, UserID := 0, GroupID := 2, ID := 2\<rparr>,
      ex_db\<lparr>tbl_submissions :=
              [ex_row, ex_sub\<lparr>AssignmentID := 2, UserID := 0, GroupID := 2, ID := 2\<rparr>]\<rparr>) \<and>
   CreateSubmission
     (ex_db\<lparr>tbl_submissions :=
              [ex_row, ex_sub\<lparr>AssignmentID := 2, UserID := 0, GroupID := 2, ID := 2\<rparr>]\<rparr>)
     (ex_sub\<lparr>AssignmentID := 2, UserID := 0, GroupID := 2\<rparr>) =
     (None, ex_sub\<lparr>AssignmentID := 2, UserID := 0, GroupID := 2, ID := 2\<rparr>,
      ex_db\<lparr>tbl_submissions :=
              [ex_row, ex_sub\<lparr>AssignmentID := 2, UserID := 0, GroupID := 2, ID := 2\<rparr>]\<rparr>) \<and>
   CreateSubmission
     (ex_db\<lparr>tbl_submissions :=
              [ex_row, ex_sub\<lparr>AssignmentID := 2, UserID := 0, GroupID := 2, ID := 2\<rparr>]\<rparr>)
     (ex_sub\<lparr>AssignmentID := 2, UserID := 0, GroupID := 2, Score := 40,
             BuildInfo := ''build 3''\<rparr>) =
     (None,
      ex_sub\<lparr>AssignmentID := 2, UserID := 0, GroupID := 2, Score := 40,
             BuildInfo := ''build 3'', ID := 2\<rparr>,
      ex_db\<lparr>tbl_submissions :=
              [ex_row,
               ex_sub\<lparr>AssignmentID := 2, UserID := 0, GroupID := 2, Score := 40,
                      BuildInfo := ''build 3'', ID := 2\<rparr>]\<rparr>)"
proof -
  let ?s = "ex_sub\<lparr>AssignmentID := 2, UserID := 0, GroupID := 2\<rparr>"
  let ?s2 = "ex_sub\<lparr>AssignmentID := 2, UserID := 0, GroupID := 2, Score := 40,
                    BuildInfo := ''build 3''\<rparr>"
  have h1: "ID ?s = 0" and h2: "AssignmentID ?s > 0"
    and h3: "(UserID ?s > 0 \<and> GroupID ?s = 0) \<or> (UserID ?s = 0 \<and> GroupID ?s > 0)"
    by (simp_all add: ex_sub_def)
  have h4: "distinct (map user_ID (tbl_users ex_db))"
    and h5: "distinct (map group_ID (tbl_groups ex_db))"
    and h6: "distinct (map asg_ID (tbl_assignments ex_db))"
    by (simp_all add: ex_db_def)
  have h7: "UserID ?s > 0 \<longrightarrow> UserID ?s \<in> set (map user_ID (tbl_users ex_db))"
    and h8: "GroupID ?s > 0 \<longrightarrow> GroupID ?s \<in> set (map group_ID (tbl_groups ex_db))"
    and h9: "AssignmentID ?s \<in> set (map asg_ID (tbl_assignments ex_db))"
    by (simp_all add: ex_sub_def ex_db_def)
  have h10: "\<forall>r\<in>set (tbl_submissions ex_db).
               AssignmentID r = AssignmentID ?s \<longrightarrow>
                 (UserID ?s > 0 \<longrightarrow> UserID r \<noteq> UserID ?s) \<and>
                 (GroupID ?s > 0 \<longrightarrow> GroupID r \<noteq> GroupID ?s)"
    by (simp add: ex_sub_def ex_db_def ex_row_def)
  have n: "next_pk [ex_row] = 2"
    by (simp add: next_pk_def ex_row_def)
  have tbl: "tbl_submissions ex_db = [ex_row]"
    by (simp add: ex_db_def)
  note inst = CreateSubmission_idempotent [of ?s ex_db, OF h1 h2 h3 h4 h5 h6 h7 h8 h9 h10,
      unfolded Let_def tbl n]
  from inst have twice:
    "CreateSubmission ex_db ?s = (None, ?s\<lparr>ID := 2\<rparr>, ex_db\<lparr>tbl_submissions := [ex_row] @ [?s\<lparr>ID := 2\<rparr>]\<rparr>)"
    "CreateSubmission (ex_db\<lparr>tbl_submissions := [ex_row] @ [?s\<lparr>ID := 2\<rparr>]\<rparr>) ?s =
       (None, ?s\<lparr>ID := 2\<rparr>, ex_db\<lparr>tbl_submissions := [ex_row] @ [?s\<lparr>ID := 2\<rparr>]\<rparr>)"
    by blast+
  have s2: "ID ?s2 = 0 \<and> AssignmentID ?s2 = AssignmentID ?s \<and> UserID ?s2 = UserID ?s \<and>
            GroupID ?s2 = GroupID ?s \<and> Score ?s2 \<noteq> 0"
    by (simp add: ex_sub_def)
  from inst have "ID ?s2 = 0 \<and> AssignmentID ?s2 = AssignmentID ?s \<and> UserID ?s2 = UserID ?s \<and>
            GroupID ?s2 = GroupID ?s \<and> Score ?s2 \<noteq> 0 \<longrightarrow>
      CreateSubmission (ex_db\<lparr>tbl_submissions := [ex_row] @ [?s\<lparr>ID := 2\<rparr>]\<rparr>) ?s2 =
        (None, ?s2\<lparr>ID := ID (?s\<lparr>ID := 2\<rparr>)\<rparr>,
         ex_db\<lparr>tbl_submissions := [ex_row] @ [assign_struct (?s\<lparr>ID := 2\<rparr>) ?s2]\<rparr>)"
    by blast
  with s2 have over:
    "CreateSubmission (ex_db\<lparr>tbl_submissions := [ex_row] @ [?s\<lparr>ID := 2\<rparr>]\<rparr>) ?s2 =
        (None, ?s2\<lparr>ID := ID (?s\<lparr>ID := 2\<rparr>)\<rparr>,
         ex_db\<lparr>tbl_submissions := [ex_row] @ [assign_struct (?s\<lparr>ID := 2\<rparr>) ?s2]\<rparr>)"
    by (rule mp [rotated])
  have merged: "assign_struct (?s\<lparr>ID := 2\<rparr>) ?s2 = ?s2\<lparr>ID := 2\<rparr>"
    by (simp add: assign_struct_def ex_sub_def)
  from twice over merged show ?thesis by simp
qed

text \<open>
  C4 as stated, for every valid submission, fails for one that carries an identifier
  already in use. The group 2 and the assignment 2 exist and have no submission; the
  incoming submission carries the identifier 1, which is the identifier of the stored
  submission of the student 1. The insertion is refused, the forced write of the zero score
  replaces the error by nil, and after two calls no row of the group is stored.
\<close>

theorem CreateSubmission_preset_identifier_collision:
  "CreateSubmission ex_db (ex_sub\<lparr>ID := 1, AssignmentID := 2, UserID := 0, GroupID := 2\<rparr>) =
     (None, ex_sub\<lparr>ID := 1, AssignmentID := 2, UserID := 0, GroupID := 2\<rparr>, ex_db) \<and>
   filter (\<lambda>r. AssignmentID r = 2 \<and> UserID r = 0 \<and> GroupID r = 2)
     (tbl_submissions (snd (snd (CreateSubmission
        (snd (snd (CreateSubmission ex_db
           (ex_sub\<lparr>ID := 1, AssignmentID := 2, UserID := 0, GroupID := 2\<rparr>))))
        (ex_sub\<lparr>ID := 1, AssignmentID := 2, UserID := 0, GroupID := 2\<rparr>))))) = []"
proof -
  have once: "CreateSubmission ex_db (ex_sub\<lparr>ID := 1, AssignmentID := 2, UserID := 0, GroupID := 2\<rparr>) =
     (None, ex_sub\<lparr>ID := 1, AssignmentID := 2, UserID := 0, GroupID := 2\<rparr>, ex_db)"
    by (simp add: CreateSubmission_def ex_db_def ex_sub_def ex_row_def First_Count_def
        Count_Assignment_def Last_where_def First_where_def where_struct_def
        zero_Submission_def FirstOrCreate_def Create_def assign_struct_def Model_Updates_def
        Let_def)
  have "filter (\<lambda>r. AssignmentID r = 2 \<and> UserID r = 0 \<and> GroupID r = 2) (tbl_submissions ex_db) = []"
    by (simp add: ex_db_def ex_row_def)
  with once show ?thesis by simp
qed

section \<open>UpdateSubmissions\<close>

text \<open>
  C5, as the code has it. The query carries no identifier of its own. Every stored
  submission of the query's assignment whose score is at least the query's gets the
  query's status unless that is NONE, and becomes released if the query's flag is true; a
  NONE status and a false flag leave the stored values. Every other submission, and every
  other field, is as before; the call returns no error.
\<close>

theorem UpdateSubmissions_threshold:
  assumes "ID q = 0"
  shows "UpdateSubmissions db courseID q =
     (None, db\<lparr>tbl_submissions :=
        map (\<lambda>r. if AssignmentID r = AssignmentID q \<and> Score q \<le> Score r
                  then r\<lparr>Status := (if Status q = NONE then Status r else Status q),
                         Released := (Released q \<or> Released r)\<rparr>
                  else r) (tbl_submissions db)\<rparr>)"
proof -
  have "assign_struct r (zero_Submission\<lparr>Status := Status q, Released := Released q\<rparr>) =
        r\<lparr>Status := (if Status q = NONE then Status r else Status q),
          Released := (Released q \<or> Released r)\<rparr>" for r
    by (auto simp: assign_struct_def zero_Submission_def)
  then show ?thesis
    using assms by (simp add: UpdateSubmissions_def Model_Updates_def)
qed

text \<open>The theorem at the sample database: threshold 5, status REJECTED, released.\<close>

theorem UpdateSubmissions_threshold_witness:
  "UpdateSubmissions ex_db 1
     (zero_Submission\<lparr>AssignmentID := 1, Score := 5, Status := REJECTED, Released := True\<rparr>) =
   (None, ex_db\<lparr>tbl_submissions := [ex_row\<lparr>Status := REJECTED, Released := True\<rparr>]\<rparr>)"
  using UpdateSubmissions_threshold
    [of "zero_Submission\<lparr>AssignmentID := 1, Score := 5, Status := REJECTED, Released := True\<rparr>"
        ex_db 1]
  by (simp add: zero_Submission_def ex_db_def ex_row_def)

text \<open>
  C5 as stated fails for a false released flag and for the status NONE. A released
  submission with score 7 stays released when the call asks for released = false at
  threshold 5; the approved submission of the sample database stays approved when the call
  asks for the status NONE.
\<close>

theorem UpdateSubmissions_zero_values_not_written:
  "map Released (tbl_submissions (snd (UpdateSubmissions
      (ex_db\<lparr>tbl_submissions := [ex_row\<lparr>Released := True\<rparr>]\<rparr>) 1
      (zero_Submission\<lparr>AssignmentID := 1, Score := 5, Status := REJECTED, Released := False\<rparr>))))
     = [True] \<and>
   map Status (tbl_submissions (snd (UpdateSubmissions ex_db 1
      (zero_Submission\<lparr>AssignmentID := 1, Score := 5, Status := NONE, Released := True\<rparr>))))
     = [APPROVED]"
  by (simp add: UpdateSubmissions_def Model_Updates_def zero_Submission_def ex_db_def
      ex_row_def assign_struct_def)

section \<open>UpdateReview\<close>

lemma assign_Review_content:
  "assign_Review r (zero_Review\<lparr>Feedback := Feedback q, ReviewContent := ReviewContent q,
                     Ready := Ready q, ReviewScore := ReviewScore q\<rparr>) =
   r\<lparr>Feedback := (if Feedback q = [] then Feedback r else Feedback q),
     ReviewContent := (if ReviewContent q = [] then ReviewContent r else ReviewContent q),
     Ready := (Ready q \<or> Ready r),
     ReviewScore := (if ReviewScore q = 0 then ReviewScore r else ReviewScore q)\<rparr>"
  by (auto simp: assign_Review_def zero_Review_def)

lemma where_Review_key:
  "where_Review (zero_Review\<lparr>ReviewID := i, SubmissionID := j, ReviewerID := k\<rparr>) r \<longleftrightarrow>
     (i = 0 \<or> ReviewID r = i) \<and> (j = 0 \<or> SubmissionID r = j) \<and> (k = 0 \<or> ReviewerID r = k)"
  by (simp add: where_Review_def zero_Review_def)

text \<open>
  C8, as the code has it. For every review the call returns no error and leaves the
  identifier, the submission reference and the reviewer reference of every stored row as
  they were. For a review whose identifier, submission reference and reviewer reference
  are all set, the rows that agree with it on all three are the rows written, and on those
  only feedback, review content, ready flag and score, each where the incoming value is
  not a zero value; when no row agrees on all three the database is unchanged.
\<close>

theorem UpdateReview_frame:
  "fst (UpdateReview db q) = None \<and>
   map ReviewID (tbl_reviews (snd (UpdateReview db q))) = map ReviewID (tbl_reviews db) \<and>
   map SubmissionID (tbl_reviews (snd (UpdateReview db q))) = map SubmissionID (tbl_reviews db) \<and>
   map ReviewerID (tbl_reviews (snd (UpdateReview db q))) = map ReviewerID (tbl_reviews db) \<and>
   (0 < ReviewID q \<and> 0 < SubmissionID q \<and> 0 < ReviewerID q \<longrightarrow>
      UpdateReview db q =
        (None, db\<lparr>tbl_reviews :=
           map (\<lambda>r. if ReviewID r = ReviewID q \<and> SubmissionID r = SubmissionID q \<and>
                        ReviewerID r = ReviewerID q
                     then r\<lparr>Feedback := (if Feedback q = [] then Feedback r else Feedback q),
                            ReviewContent := (if ReviewContent q = [] then ReviewContent r
                                              else ReviewContent q),
                            Ready := (Ready q \<or> Ready r),
                            ReviewScore := (if ReviewScore q = 0 then ReviewScore r
                                            else ReviewScore q)\<rparr>
                     else r) (tbl_reviews db)\<rparr>) \<and>
      ((\<forall>r\<in>set (tbl_reviews db). \<not> (ReviewID r = ReviewID q \<and> SubmissionID r = SubmissionID q \<and>
            ReviewerID r = ReviewerID q)) \<longrightarrow> UpdateReview db q = (None, db)))"
proof -
  have shape: "0 < ReviewID q \<and> 0 < SubmissionID q \<and> 0 < ReviewerID q \<Longrightarrow>
      UpdateReview db q =
        (None, db\<lparr>tbl_reviews :=
           map (\<lambda>r. if ReviewID r = ReviewID q \<and> SubmissionID r = SubmissionID q \<and>
                        ReviewerID r = ReviewerID q
                     then r\<lparr>Feedback := (if Feedback q = [] then Feedback r else Feedback q),
                            ReviewContent := (if ReviewContent q = [] then ReviewContent r
                                              else ReviewContent q),
                            Ready := (Ready q \<or> Ready r),
                            ReviewScore := (if ReviewScore q = 0 then ReviewScore r
                                            else ReviewScore q)\<rparr>
                     else r) (tbl_reviews db)\<rparr>)"
    by (simp add: UpdateReview_def where_Review_key assign_Review_content cong: if_cong)
  have noop: "UpdateReview db q = (None, db)"
    if "0 < ReviewID q \<and> 0 < SubmissionID q \<and> 0 < ReviewerID q"
      and "\<forall>r\<in>set (tbl_reviews db). \<not> (ReviewID r = ReviewID q \<and>
            SubmissionID r = SubmissionID q \<and> ReviewerID r = ReviewerID q)"
  proof -
    have "map (\<lambda>r. if ReviewID r = ReviewID q \<and> SubmissionID r = SubmissionID q \<and>
                        ReviewerID r = ReviewerID q
                     then r\<lparr>Feedback := (if Feedback q = [] then Feedback r else Feedback q),
                            ReviewContent := (if ReviewContent q = [] then ReviewContent r
                                              else ReviewContent q),
                            Ready := (Ready q \<or> Ready r),
                            ReviewScore := (if ReviewScore q = 0 then ReviewScore r
                                            else ReviewScore q)\<rparr>
                     else r) (tbl_reviews db) = tbl_reviews db"
      using that(2) by (intro map_idI) auto
    then show ?thesis using shape [OF that(1)] by simp
  qed
  have ids: "map ReviewID (tbl_reviews (snd (UpdateReview db q))) = map ReviewID (tbl_reviews db)"
    "map SubmissionID (tbl_reviews (snd (UpdateReview db q))) = map SubmissionID (tbl_reviews db)"
    "map ReviewerID (tbl_reviews (snd (UpdateReview db q))) = map ReviewerID (tbl_reviews db)"
    by (simp_all add: UpdateReview_def assign_Review_content comp_def)
  show ?thesis using shape noop ids by (simp add: UpdateReview_def)
qed

text \<open>The theorem at two stored reviews of the submission 1: the review 2 by the
  reviewer 9 gets the new feedback and score, its ready flag (the incoming one is false)
  and the review 1 stay; a review 3 that is not stored changes nothing.\<close>

theorem UpdateReview_frame_witness:
  "UpdateReview (ex_db\<lparr>tbl_reviews := [ex_review, ex_review\<lparr>ReviewID := 2, ReviewerID := 9\<rparr>]\<rparr>)
     (zero_Review\<lparr>ReviewID := 2, SubmissionID := 1, ReviewerID := 9,
                  Feedback := ''better'', ReviewScore := 60\<rparr>) =
     (None, ex_db\<lparr>tbl_reviews := [ex_review,
        ex_review\<lparr>ReviewID := 2, ReviewerID := 9, Feedback := ''better'', ReviewScore := 60\<rparr>]\<rparr>) \<and>
   UpdateReview (ex_db\<lparr>tbl_reviews := [ex_review, ex_review\<lparr>ReviewID := 2, ReviewerID := 9\<rparr>]\<rparr>)
     (zero_Review\<lparr>ReviewID := 3, SubmissionID := 1, ReviewerID := 9, Feedback := ''better''\<rparr>) =
     (None, ex_db\<lparr>tbl_reviews := [ex_review, ex_review\<lparr>ReviewID := 2, ReviewerID := 9\<rparr>]\<rparr>)"
proof -
  let ?db = "ex_db\<lparr>tbl_reviews := [ex_review, ex_review\<lparr>ReviewID := 2, ReviewerID := 9\<rparr>]\<rparr>"
  let ?q = "zero_Review\<lparr>ReviewID := 2, SubmissionID := 1, ReviewerID := 9,
                        Feedback := ''better'', ReviewScore := 60\<rparr>"
  let ?q' = "zero_Review\<lparr>ReviewID := 3, SubmissionID := 1, ReviewerID := 9, Feedback := ''better''\<rparr>"
  have "0 < ReviewID ?q \<and> 0 < SubmissionID ?q \<and> 0 < ReviewerID ?q"
    by (simp add: zero_Review_def)
  with UpdateReview_frame [of ?db ?q] have first: "UpdateReview ?db ?q =
     (None, ?db\<lparr>tbl_reviews := [ex_review,
        ex_review\<lparr>ReviewID := 2, ReviewerID := 9, Feedback := ''better'', ReviewScore := 60\<rparr>]\<rparr>)"
    by (simp add: zero_Review_def ex_review_def)
  have "0 < ReviewID ?q' \<and> 0 < SubmissionID ?q' \<and> 0 < ReviewerID ?q'"
    and "\<forall>r\<in>set (tbl_reviews ?db). \<not> (ReviewID r = ReviewID ?q' \<and>
            SubmissionID r = SubmissionID ?q' \<and> ReviewerID r = ReviewerID ?q')"
    by (simp_all add: zero_Review_def ex_review_def)
  with UpdateReview_frame [of ?db ?q'] have second: "UpdateReview ?db ?q' = (None, ?db)"
    by blast
  from first second show ?thesis by simp
qed

text \<open>
  C8 as stated fails for a review without identifier. The stored review 1 does not agree
  with it on the identifier, yet it is the row written: a zero identifier is no condition.
\<close>

theorem UpdateReview_zero_identifier_matches:
  "UpdateReview (ex_db\<lparr>tbl_reviews := [ex_review]\<rparr>)
     (zero_Review\<lparr>SubmissionID := 1, ReviewerID := 7, Feedback := ''changed''\<rparr>) =
     (None, ex_db\<lparr>tbl_reviews := [ex_review\<lparr>Feedback := ''changed''\<rparr>]\<rparr>) \<and>
   ReviewID ex_review = 1 \<and>
   ex_review\<lparr>Feedback := ''changed''\<rparr> \<noteq> ex_review"
  by (simp add: UpdateReview_def where_Review_def assign_Review_def zero_Review_def
      ex_review_def)

section \<open>GetLastSubmissions\<close>

lemma max_pk_None: "max_pk rs = None \<longleftrightarrow> rs = []"
  by (induction rs) (auto split: option.splits)

lemma max_pk_Some:
  "max_pk rs = Some m \<Longrightarrow> m \<in> set rs \<and> (\<forall>r\<in>set rs. ID r \<le> ID m)"
proof (induction rs arbitrary: m)
  case Nil
  then show ?case by simp
next
  case (Cons x xs)
  show ?case
  proof (cases "max_pk xs")
    case None
    with Cons.prems show ?thesis by (simp add: max_pk_None)
  next
    case (Some y)
    with Cons.IH [of y] have y: "y \<in> set xs" "\<forall>r\<in>set xs. ID r \<le> ID y" by simp_all
    show ?thesis
    proof (cases "ID x < ID y")
      case True
      with Some Cons.prems y show ?thesis by auto
    next
      case False
      with Some Cons.prems y show ?thesis by fastforce
    qed
  qed
qed

lemma where_struct_assignment:
  "0 < i \<Longrightarrow>
     where_struct (q\<lparr>AssignmentID := i\<rparr>) r \<longleftrightarrow>
       AssignmentID r = i \<and>
       (ID q = 0 \<or> ID r = ID q) \<and>
       (UserID q = 0 \<or> UserID r = UserID q) \<and>
       (GroupID q = 0 \<or> GroupID r = GroupID q) \<and>
       (Score q = 0 \<or> Score r = Score q) \<and>
       (BuildInfo q = [] \<or> BuildInfo r = BuildInfo q) \<and>
       (Released q = False \<or> Released r = Released q) \<and>
       (Status q = NONE \<or> Status r = Status q)"
  by (auto simp: where_struct_def)

lemma First_Course_found:
  assumes "courseID \<in> set (map course_ID (tbl_courses db))"
  shows "\<exists>c. c \<in> set (tbl_courses db) \<and> course_ID c = courseID \<and>
           First_Course db courseID =
             Inr (c, filter (\<lambda>a. asg_CourseID a = courseID) (tbl_assignments db))"
proof (cases "find (\<lambda>c. course_ID c = courseID) (tbl_courses db)")
  case None
  with assms show ?thesis by (auto simp: find_None_iff)
next
  case (Some c)
  then have "c \<in> set (tbl_courses db)" "course_ID c = courseID"
    by (auto simp: find_Some_iff)
  with Some show ?thesis by (simp add: First_Course_def)
qed

lemma First_Course_missing:
  assumes "courseID \<notin> set (map course_ID (tbl_courses db))"
  shows "First_Course db courseID = Inl ErrRecordNotFound"
proof -
  from assms have "find (\<lambda>c. course_ID c = courseID) (tbl_courses db) = None"
    by (auto simp: find_None_iff)
  then show ?thesis by (simp add: First_Course_def)
qed

lemma GetSubmission_not_found:
  "GetSubmission db q = Inl e \<Longrightarrow>
     e = ErrRecordNotFound \<and> (\<forall>r\<in>set (tbl_submissions db). \<not> where_struct q r)"
  by (auto simp: GetSubmission_def Last_where_def max_pk_None filter_empty_conv
      split: option.splits)

lemma GetSubmission_latest:
  assumes "GetSubmission db q = Inr (s, rs)"
  shows "s \<in> set (tbl_submissions db) \<and> where_struct q s \<and>
         (\<forall>r\<in>set (tbl_submissions db). where_struct q r \<longrightarrow> ID r \<le> ID s) \<and>
         rs = filter (\<lambda>r. SubmissionID r = ID s) (tbl_reviews db)"
proof -
  from assms have m: "max_pk (filter (where_struct q) (tbl_submissions db)) = Some s"
    and rs: "rs = filter (\<lambda>r. SubmissionID r = ID s) (tbl_reviews db)"
    by (auto simp: GetSubmission_def Last_where_def split: option.splits)
  from max_pk_Some [OF m] rs show ?thesis by auto
qed

lemma latestSubs_loop_skip:
  assumes "\<forall>a\<in>set as. \<forall>e. getSubmission (query\<lparr>AssignmentID := asg_ID a\<rparr>) = Inl e
             \<longrightarrow> e = ErrRecordNotFound"
  shows "latestSubs_loop getSubmission as query latestSubs =
           Inr (latestSubs @ found_subs getSubmission query as)"
  using assms
proof (induction as arbitrary: query latestSubs)
  case Nil
  then show ?case by (simp add: found_subs_def map_filter_simps)
next
  case (Cons a as)
  let ?q = "query\<lparr>AssignmentID := asg_ID a\<rparr>"
  have same: "?q\<lparr>AssignmentID := i\<rparr> = query\<lparr>AssignmentID := i\<rparr>" for i
    by simp
  have rest: "\<forall>b\<in>set as. \<forall>e. getSubmission (?q\<lparr>AssignmentID := asg_ID b\<rparr>) = Inl e
                \<longrightarrow> e = ErrRecordNotFound"
    using Cons.prems by (simp add: same)
  have found: "found_subs getSubmission ?q as = found_subs getSubmission query as"
    by (simp add: found_subs_def same)
  show ?case
  proof (cases "getSubmission ?q")
    case (Inl e)
    with Cons.prems have "e = ErrRecordNotFound" by simp
    with Inl Cons.IH [OF rest] found show ?thesis
      by (simp add: found_subs_def map_filter_simps Let_def)
  next
    case (Inr temp)
    with Cons.IH [OF rest] found show ?thesis
      by (simp add: found_subs_def map_filter_simps Let_def)
  qed
qed

lemma latestSubs_loop_abort:
  assumes "\<forall>b\<in>set pre. \<forall>e. getSubmission (query\<lparr>AssignmentID := asg_ID b\<rparr>) = Inl e
             \<longrightarrow> e = ErrRecordNotFound"
    and "getSubmission (query\<lparr>AssignmentID := asg_ID a\<rparr>) = Inl err"
    and "err \<noteq> ErrRecordNotFound"
  shows "latestSubs_loop getSubmission (pre @ a # post) query latestSubs = Inl err"
  using assms
proof (induction pre arbitrary: query latestSubs)
  case Nil
  then show ?case by (simp add: Let_def)
next
  case (Cons b pre)
  let ?q = "query\<lparr>AssignmentID := asg_ID b\<rparr>"
  have same: "?q\<lparr>AssignmentID := i\<rparr> = query\<lparr>AssignmentID := i\<rparr>" for i
    by simp
  have rest: "\<forall>c\<in>set pre. \<forall>e. getSubmission (?q\<lparr>AssignmentID := asg_ID c\<rparr>) = Inl e
                \<longrightarrow> e = ErrRecordNotFound"
    using Cons.prems(1) by (simp add: same)
  have hit: "getSubmission (?q\<lparr>AssignmentID := asg_ID a\<rparr>) = Inl err"
    using Cons.prems(2) by (simp add: same)
  note IH = Cons.IH [OF rest hit Cons.prems(3)]
  show ?case
  proof (cases "getSubmission ?q")
    case (Inl e)
    with Cons.prems(1) have "e = ErrRecordNotFound" by simp
    with Inl IH show ?thesis by (simp add: Let_def)
  next
    case (Inr temp)
    with IH show ?thesis by (simp add: Let_def)
  qed
qed

text \<open>
  C6. The assignments walked are the stored assignments whose course reference is the
  course identifier given, in stored order; without a course of that identifier the call
  fails with \<open>ErrRecordNotFound\<close>.
  \<^item> For a course that exists the result is the list, in the assignments' order, of what
    \<open>GetSubmission\<close> finds for the query with each assignment's identifier; an assignment
    for which nothing is found contributes nothing and is no error.
  \<^item> \<open>GetSubmission\<close> fails only with \<open>ErrRecordNotFound\<close>, and exactly when no stored
    submission matches the query; what it finds is a stored submission that matches and
    has the greatest identifier among those that match.
  \<^item> A submission matches the query with an assignment's identifier (which is not 0) when
    it is a submission of that assignment and agrees with the query on every other field
    that is set in the query. The conditions are joined: with both a user and a group
    identifier set in the query, a submission must carry both.
  \<^item> For any lookup in the place of \<open>GetSubmission\<close>: when its first error other than
    \<open>ErrRecordNotFound\<close> is at some assignment of the course, the call returns that error
    and no list.
\<close>

theorem GetLastSubmissions_skip_or_abort:
  "(courseID \<in> set (map course_ID (tbl_courses db)) \<longrightarrow>
      GetLastSubmissions db courseID query =
        Inr (found_subs (GetSubmission db) query
               (filter (\<lambda>a. asg_CourseID a = courseID) (tbl_assignments db)))) \<and>
   (courseID \<notin> set (map course_ID (tbl_courses db)) \<longrightarrow>
      GetLastSubmissions db courseID query = Inl ErrRecordNotFound) \<and>
   (GetSubmission db q = Inl e \<longrightarrow>
      e = ErrRecordNotFound \<and> (\<forall>r\<in>set (tbl_submissions db). \<not> where_struct q r)) \<and>
   (GetSubmission db q = Inr (s, rs) \<longrightarrow>
      s \<in> set (tbl_submissions db) \<and> where_struct q s \<and>
      (\<forall>r\<in>set (tbl_submissions db). where_struct q r \<longrightarrow> ID r \<le> ID s)) \<and>
   (0 < asg_ID a' \<longrightarrow>
      where_struct (query\<lparr>AssignmentID := asg_ID a'\<rparr>) r =
        (AssignmentID r = asg_ID a' \<and>
         (ID query = 0 \<or> ID r = ID query) \<and>
         (UserID query = 0 \<or> UserID r = UserID query) \<and>
         (GroupID query = 0 \<or> GroupID r = GroupID query) \<and>
         (Score query = 0 \<or> Score r = Score query) \<and>
         (BuildInfo query = [] \<or> BuildInfo r = BuildInfo query) \<and>
         (Released query = False \<or> Released r = Released query) \<and>
         (Status query = NONE \<or> Status r = Status query))) \<and>
   (courseID \<in> set (map course_ID (tbl_courses db)) \<and>
    filter (\<lambda>a. asg_CourseID a = courseID) (tbl_assignments db) = pre @ a # post \<and>
    (\<forall>b\<in>set pre. \<forall>e. lookup (query\<lparr>AssignmentID := asg_ID b\<rparr>) = Inl e
        \<longrightarrow> e = ErrRecordNotFound) \<and>
    lookup (query\<lparr>AssignmentID := asg_ID a\<rparr>) = Inl err \<and> err \<noteq> ErrRecordNotFound \<longrightarrow>
      GetLastSubmissions_with lookup db courseID query = Inl err)"
proof -
  let ?as = "filter (\<lambda>a. asg_CourseID a = courseID) (tbl_assignments db)"
  have skip: "GetLastSubmissions db courseID query = Inr (found_subs (GetSubmission db) query ?as)"
    if "courseID \<in> set (map course_ID (tbl_courses db))"
  proof -
    from First_Course_found [OF that] obtain c where
      c: "First_Course db courseID = Inr (c, ?as)" by blast
    have "\<forall>a\<in>set ?as. \<forall>e. GetSubmission db (query\<lparr>AssignmentID := asg_ID a\<rparr>) = Inl e
            \<longrightarrow> e = ErrRecordNotFound"
      using GetSubmission_not_found by blast
    from latestSubs_loop_skip [OF this, of "[]"] c show ?thesis
      by (simp add: GetLastSubmissions_def GetLastSubmissions_with_def)
  qed
  have missing: "GetLastSubmissions db courseID query = Inl ErrRecordNotFound"
    if "courseID \<notin> set (map course_ID (tbl_courses db))"
    using First_Course_missing [OF that]
    by (simp add: GetLastSubmissions_def GetLastSubmissions_with_def)
  have abort: "GetLastSubmissions_with lookup db courseID query = Inl err"
    if "courseID \<in> set (map course_ID (tbl_courses db))"
      and "?as = pre @ a # post"
      and "\<forall>b\<in>set pre. \<forall>e. lookup (query\<lparr>AssignmentID := asg_ID b\<rparr>) = Inl e
             \<longrightarrow> e = ErrRecordNotFound"
      and "lookup (query\<lparr>AssignmentID := asg_ID a\<rparr>) = Inl err" and "err \<noteq> ErrRecordNotFound"
  proof -
    from First_Course_found [OF that(1)] that(2) obtain c where
      c: "First_Course db courseID = Inr (c, pre @ a # post)" by auto
    from latestSubs_loop_abort [OF that(3,4,5), of post "[]"] c show ?thesis
      by (simp add: GetLastSubmissions_with_def)
  qed
  show ?thesis
    using skip missing abort GetSubmission_not_found [of db q e]
      GetSubmission_latest [of db q s rs] where_struct_assignment [of "asg_ID a'" query r]
    by blast
qed

text \<open>
  The theorem at the sample database and the query for the student 1: the submission of
  the assignment 1 is returned and the assignment 2, which has none, is skipped; with a
  lookup that fails at the assignment 2 for another reason, the failure is the result;
  for the course 5, which is not stored, the call fails.
\<close>

theorem GetLastSubmissions_skip_or_abort_witness:
  "GetLastSubmissions ex_db 1 (zero_Submission\<lparr>UserID := 1\<rparr>) = Inr [(ex_row, [])] \<and>
   GetLastSubmissions_with
     (\<lambda>q. if AssignmentID q = 2 then Inl (StoreFailure ''connection lost'')
           else GetSubmission ex_db q)
     ex_db 1 (zero_Submission\<lparr>UserID := 1\<rparr>) = Inl (StoreFailure ''connection lost'') \<and>
   GetLastSubmissions ex_db 5 (zero_Submission\<lparr>UserID := 1\<rparr>) = Inl ErrRecordNotFound"
proof -
  let ?q = "zero_Submission\<lparr>UserID := 1\<rparr>"
  let ?a1 = "\<lparr>asg_ID = 1, asg_CourseID = 1\<rparr>"
  let ?a2 = "\<lparr>asg_ID = 2, asg_CourseID = 1\<rparr>"
  let ?lookup = "\<lambda>q. if AssignmentID q = 2 then Inl (StoreFailure ''connection lost'')
                      else GetSubmission ex_db q"
  have course: "(1::nat) \<in> set (map course_ID (tbl_courses ex_db))"
    and as: "filter (\<lambda>a. asg_CourseID a = 1) (tbl_assignments ex_db) = [?a1] @ ?a2 # []"
    by (simp_all add: ex_db_def)
  have found: "found_subs (GetSubmission ex_db) ?q ([?a1] @ ?a2 # []) = [(ex_row, [])]"
    by (simp add: found_subs_def map_filter_simps GetSubmission_def Last_where_def
        where_struct_def zero_Submission_def ex_db_def ex_row_def)
  have pre: "\<forall>b\<in>set [?a1]. \<forall>e. ?lookup (?q\<lparr>AssignmentID := asg_ID b\<rparr>) = Inl e
               \<longrightarrow> e = ErrRecordNotFound"
    by (simp add: GetSubmission_def Last_where_def where_struct_def zero_Submission_def
        ex_db_def ex_row_def)
  have hit: "?lookup (?q\<lparr>AssignmentID := asg_ID ?a2\<rparr>) = Inl (StoreFailure ''connection lost'')"
    and hard: "StoreFailure ''connection lost'' \<noteq> ErrRecordNotFound"
    by simp_all
  note inst = GetLastSubmissions_skip_or_abort
    [of 1 ex_db ?q ?q ErrRecordNotFound ex_row "[]" ?a1 ex_row
        "[?a1]" ?a2 "[]" ?lookup "StoreFailure ''connection lost''"]
  from inst have "1 \<in> set (map course_ID (tbl_courses ex_db)) \<longrightarrow>
      GetLastSubmissions ex_db 1 ?q =
        Inr (found_subs (GetSubmission ex_db) ?q
               (filter (\<lambda>a. asg_CourseID a = 1) (tbl_assignments ex_db)))"
    by (rule conjunct1)
  with course as found have first: "GetLastSubmissions ex_db 1 ?q = Inr [(ex_row, [])]"
    by simp
  from inst course as pre hit hard
  have second: "GetLastSubmissions_with ?lookup ex_db 1 ?q = Inl (StoreFailure ''connection lost'')"
    by blast
  have no5: "(5::nat) \<notin> set (map course_ID (tbl_courses ex_db))"
    by (simp add: ex_db_def)
  from GetLastSubmissions_skip_or_abort [of 5 ex_db ?q] no5
  have third: "GetLastSubmissions ex_db 5 ?q = Inl ErrRecordNotFound"
    by blast
  from first second third show ?thesis by simp
qed

section \<open>CourseManager: fillLinks\<close>

lemma fold_push_lab:
  "fold (push_lab submissions name) as studentCourse =
     studentCourse\<lparr>assignments := assignments studentCourse @
       map (\<lambda>a. \<lparr> assignment = a,
                   latest = find (\<lambda>sub. assignmentid sub = asg_ID a) submissions,
                   authorName = name \<rparr>) as\<rparr>"
  by (induction as arbitrary: studentCourse) (simp_all add: push_lab_def)

lemma fillLinks_given:
  assumes "link studentCourse \<noteq> None"
  shows "fillLinks courseProvider student studentCourse (Some as) =
     (if as = [] then (studentCourse, [])
      else
        (studentCourse\<lparr>assignments := assignments studentCourse @
           map (\<lambda>a. \<lparr> assignment = a,
                       latest = find (\<lambda>sub. assignmentid sub = asg_ID a)
                         (getAllLabInfos courseProvider (course_ID (course studentCourse))
                            (user_ID student)),
                       authorName = user_Name student \<rparr>) as\<rparr>,
         [Call_getAllLabInfos (course_ID (course studentCourse)) (user_ID student)]))"
  using assms by (auto simp: fillLinks_def fold_push_lab)



lemma find_no_match: "\<forall>x\<in>set xs. \<not> P x \<Longrightarrow> find P xs = None"
  by (induction xs) simp_all

lemma find_some_match: "\<exists>x\<in>set xs. P x \<Longrightarrow> \<exists>s. find P xs = Some s \<and> s \<in> set xs \<and> P s"
  by (induction xs) auto

text \<open>
  C7. The batch of the student's submissions for the course holds a submission for A1 and
  none for A2. The link returned for the assignments [A1, A2] has two entries in that
  order: A1 with a submission of the batch that is for A1 (the first one), A2 with none,
  each with the student's name. One call is made to the provider, for the batch. For every
  list of assignments the course is, after the call, the course passed in, and it is the
  course of the link.
\<close>

theorem getStudentCourseForTeacher_pairs:
  assumes "\<exists>sub\<in>set (getAllLabInfos courseProvider (course_ID crs) (user_ID (rel_user student))).
             assignmentid sub = asg_ID A1"
    and "\<forall>sub\<in>set (getAllLabInfos courseProvider (course_ID crs) (user_ID (rel_user student))).
             assignmentid sub \<noteq> asg_ID A2"
  shows "\<exists>userCourse s1.
           getStudentCourseForTeacher courseProvider student crs [A1, A2] =
             (Some userCourse,
              [Call_getAllLabInfos (course_ID crs) (user_ID (rel_user student))], crs) \<and>
           assignments userCourse =
             [\<lparr> assignment = A1, latest = Some s1, authorName = user_Name (rel_user student) \<rparr>,
              \<lparr> assignment = A2, latest = None, authorName = user_Name (rel_user student) \<rparr>] \<and>
           s1 \<in> set (getAllLabInfos courseProvider (course_ID crs) (user_ID (rel_user student))) \<and>
           assignmentid s1 = asg_ID A1 \<and>
           course userCourse = crs \<and>
           (\<forall>as. snd (snd (getStudentCourseForTeacher courseProvider student crs as)) = crs \<and>
                 (\<exists>l. fst (getStudentCourseForTeacher courseProvider student crs as) = Some l \<and>
                      course l = crs))"
proof -
  let ?batch = "getAllLabInfos courseProvider (course_ID crs) (user_ID (rel_user student))"
  from find_some_match [OF assms(1)] obtain s1 where
    s1: "find (\<lambda>sub. assignmentid sub = asg_ID A1) ?batch = Some s1"
      "s1 \<in> set ?batch" "assignmentid s1 = asg_ID A1"
    by blast
  have none: "find (\<lambda>sub. assignmentid sub = asg_ID A2) ?batch = None"
    using assms(2) by (intro find_no_match) simp
  have frame: "snd (snd (getStudentCourseForTeacher courseProvider student crs as)) = crs \<and>
      (\<exists>l. fst (getStudentCourseForTeacher courseProvider student crs as) = Some l \<and>
           course l = crs)" for as
    by (cases "as = []")
       (simp_all add: getStudentCourseForTeacher_def Let_def fillLinks_given split_def)
  show ?thesis
    using s1 none frame
    by (simp add: getStudentCourseForTeacher_def Let_def fillLinks_given)
qed

text \<open>The theorem at a student with one submission (score 80) for the first of the two
  assignments of the sample course.\<close>

theorem getStudentCourseForTeacher_pairs_witness:
  "fst (getStudentCourseForTeacher ex_provider ex_student
          \<lparr>course_ID = 1, course_Name = ''algo''\<rparr>
          [\<lparr>asg_ID = 1, asg_CourseID = 1\<rparr>, \<lparr>asg_ID = 2, asg_CourseID = 1\<rparr>]) =
     Some \<lparr> link = Some (new_Enrollment
                \<lparr> enr_userid := 1, enr_user := Some \<lparr>user_ID = 1, user_Name = ''ann''\<rparr>,
                  enr_courseid := 1,
                  enr_course := Some \<lparr>course_ID = 1, course_Name = ''algo''\<rparr>,
                  enr_status := 2 \<rparr>),
            assignments =
              [\<lparr> assignment = \<lparr>asg_ID = 1, asg_CourseID = 1\<rparr>,
                 latest = Some \<lparr>sub_id = 4, assignmentid = 1, sub_score = 80\<rparr>,
                 authorName = ''ann'' \<rparr>,
               \<lparr> assignment = \<lparr>asg_ID = 2, asg_CourseID = 1\<rparr>,
                 latest = None, authorName = ''ann'' \<rparr>],
            course = \<lparr>course_ID = 1, course_Name = ''algo''\<rparr> \<rparr>"
proof -
  let ?c = "\<lparr>course_ID = 1, course_Name = ''algo''\<rparr>"
  let ?A1 = "\<lparr>asg_ID = 1, asg_CourseID = 1\<rparr>"
  let ?A2 = "\<lparr>asg_ID = 2, asg_CourseID = 1\<rparr>"
  have h1: "\<exists>sub\<in>set (getAllLabInfos ex_provider (course_ID ?c) (user_ID (rel_user ex_student))).
              assignmentid sub = asg_ID ?A1"
    and h2: "\<forall>sub\<in>set (getAllLabInfos ex_provider (course_ID ?c) (user_ID (rel_user ex_student))).
              assignmentid sub \<noteq> asg_ID ?A2"
    by (simp_all add: ex_provider_def ex_student_def)
  from getStudentCourseForTeacher_pairs [OF h1 h2] obtain userCourse s1 where
    r: "getStudentCourseForTeacher ex_provider ex_student ?c [?A1, ?A2] =
          (Some userCourse,
           [Call_getAllLabInfos (course_ID ?c) (user_ID (rel_user ex_student))], ?c)"
      "s1 \<in> set (getAllLabInfos ex_provider (course_ID ?c) (user_ID (rel_user ex_student)))"
    by blast
  have "getStudentCourseForTeacher ex_provider ex_student ?c [?A1, ?A2] =
     (Some \<lparr> link = Some (new_Enrollment
                \<lparr> enr_userid := 1, enr_user := Some \<lparr>user_ID = 1, user_Name = ''ann''\<rparr>,
                  enr_courseid := 1, enr_course := Some ?c, enr_status := 2 \<rparr>),
            assignments =
              [\<lparr> assignment = ?A1,
                 latest = Some \<lparr>sub_id = 4, assignmentid = 1, sub_score = 80\<rparr>,
                 authorName = ''ann'' \<rparr>,
               \<lparr> assignment = ?A2, latest = None, authorName = ''ann'' \<rparr>],
            course = ?c \<rparr>,
      [Call_getAllLabInfos 1 1], ?c)"
    by (simp add: getStudentCourseForTeacher_def fillLinks_def push_lab_def ex_provider_def
        ex_student_def Let_def)
  with r show ?thesis by simp
qed

text \<open>
  C9. With the empty list of assignments given, the link returned has no assignment
  entries and no call is made to the provider; \<open>fillLinks\<close> itself returns the link it was
  given and makes no call.
\<close>

theorem fillLinks_empty_assignments:
  "getStudentCourseForTeacher courseProvider student crs [] =
     (Some \<lparr> link = Some (new_Enrollment
                \<lparr> enr_userid := user_ID (rel_user student),
                  enr_user := Some (rel_user student),
                  enr_courseid := course_ID crs,
                  enr_course := Some crs,
                  enr_status := enr_status (rel_link student) \<rparr>),
            assignments = [], course = crs \<rparr>,
      [], crs) \<and>
   fillLinks courseProvider usr studentCourse (Some []) = (studentCourse, [])"
  by (simp add: getStudentCourseForTeacher_def fillLinks_def Let_def)



end
